theory Spec2Isabelle
  imports Complex_Main "HOL-Library.AList" "HOL-Library.Sublist"
begin

section \<open>JavaScript values\<close>

text \<open>
  The values the handler works on: what \<^verbatim>\<open>JSON.parse\<close> returns (null, booleans, numbers,
  strings, arrays, objects) and \<^verbatim>\<open>undefined\<close>, which a read of an absent property yields.
  A number is the exact value of the double; an object is the list of its own enumerable
  properties, whose names are distinct. The list is in the order of creation, where
  JavaScript enumerates index-like names first: what follows reads an object by name only.
  A \<^typ>\<open>char\<close> stands for one UTF-16 code unit.
\<close>

datatype js =
    JUndefined
  | JNull
  | JBool bool
  | JNum rat
  | JStr string
  | JArr "js list"
  | JObj "(string \<times> js) list"

datatype js_error =
    SyntaxError
  | TypeError
  | ServiceError string

text \<open>ToBoolean: \<^verbatim>\<open>undefined\<close>, \<^verbatim>\<open>null\<close>, \<^verbatim>\<open>false\<close>, \<^verbatim>\<open>0\<close> and \<^verbatim>\<open>""\<close> are falsy; every
  array and every object is truthy, the empty ones too.\<close>

fun truthy :: "js \<Rightarrow> bool" where
  "truthy JUndefined = False"
| "truthy JNull = False"
| "truthy (JBool b) = b"
| "truthy (JNum n) = (n \<noteq> 0)"
| "truthy (JStr s) = (s \<noteq> [])"
| "truthy (JArr xs) = True"
| "truthy (JObj kvs) = True"

text \<open>The prefix operator \<^verbatim>\<open>!\<close>.\<close>

definition js_not :: "js \<Rightarrow> bool" where
  "js_not v = (\<not> truthy v)"

text \<open>
  The member reads of the handler, \<^verbatim>\<open>message.siteId\<close> and \<^verbatim>\<open>message.body\<close>: a read on
  \<^verbatim>\<open>null\<close> or \<^verbatim>\<open>undefined\<close> throws a TypeError; an object gives its own property or
  \<^verbatim>\<open>undefined\<close>; a boolean, number, string or array has neither name (they are no index,
  not \<^verbatim>\<open>length\<close> and on no prototype), so the read gives \<^verbatim>\<open>undefined\<close>.
\<close>

fun get_member :: "js \<Rightarrow> string \<Rightarrow> js_error + js" where
  "get_member JUndefined k = Inl TypeError"
| "get_member JNull k = Inl TypeError"
| "get_member (JObj kvs) k = Inr (case map_of kvs k of Some v \<Rightarrow> v | None \<Rightarrow> JUndefined)"
| "get_member v k = Inr JUndefined"

text \<open>Decimal rendering of an array index, the property name of an element.\<close>

definition digit_char :: "nat \<Rightarrow> char" where
  "digit_char d = ''0123456789'' ! d"

function decimal :: "nat \<Rightarrow> string" where
  "decimal n = (if n < 10 then [digit_char n] else decimal (n div 10) @ [digit_char (n mod 10)])"
  by pat_completeness auto
termination
  by (relation "measure id") auto

declare decimal.simps [simp del]

text \<open>
  The own enumerable properties an object spread \<^verbatim>\<open>...v\<close> copies: the properties of an
  object, the indexed elements of an array, the indexed code units of a string, and nothing
  for a boolean, a number, \<^verbatim>\<open>null\<close> or \<^verbatim>\<open>undefined\<close>.
\<close>

fun own_props :: "js \<Rightarrow> (string \<times> js) list" where
  "own_props (JObj kvs) = kvs"
| "own_props (JArr xs) = zip (map decimal [0..<length xs]) xs"
| "own_props (JStr s) = zip (map decimal [0..<length s]) (map (\<lambda>c. JStr [c]) s)"
| "own_props v = []"

text \<open>
  Defining a property in an object literal replaces the value of a name the object has and
  adds the name otherwise; a spread defines the copied properties one after the other.
\<close>

definition spread :: "js \<Rightarrow> (string \<times> js) list \<Rightarrow> (string \<times> js) list" where
  "spread v obj = fold (\<lambda>(k, x). AList.update k x) (own_props v) obj"

section \<open>The stack: table, queues, event source\<close>

datatype attribute_type = STRING | NUMBER | BINARY

record attribute =
  attr_name :: string
  attr_type :: attribute_type

datatype billing_mode = PAY_PER_REQUEST | PROVISIONED

record table_props =
  partitionKey :: attribute
  sortKey :: "attribute option"
  billingMode :: billing_mode

text \<open>\<^verbatim>\<open>new dynamodb.Table(this, 'TelemetriesStore', {...})\<close>\<close>

definition telemetryTable :: table_props where
  "telemetryTable =
     \<lparr>partitionKey = \<lparr>attr_name = ''deviceId'', attr_type = STRING\<rparr>,
      sortKey = Some \<lparr>attr_name = ''creationTimeISO'', attr_type = STRING\<rparr>,
      billingMode = PAY_PER_REQUEST\<rparr>"

datatype duration = Duration_seconds nat

datatype queue =
    Queue (queueName: string) (visibilityTimeout: "duration option")
      (deadLetterQueue: "dead_letter_queue option")
and dead_letter_queue =
    DeadLetterQueue (maxReceiveCount: nat) (dlq_queue: queue)

text \<open>\<^verbatim>\<open>new sqs.Queue(this, 'TelemetryDLQ', { queueName: 'TelemetryDLQ' })\<close>\<close>

definition dlq :: queue where
  "dlq = Queue ''TelemetryDLQ'' None None"

text \<open>\<^verbatim>\<open>new sqs.Queue(this, 'TelemetryQueue', {...})\<close>\<close>

definition telemetryQueue :: queue where
  "telemetryQueue =
     Queue ''TelemetryQueue'' (Some (Duration_seconds 60)) (Some (DeadLetterQueue 3 dlq))"

record sqs_event_source =
  source_queue :: queue
  batchSize :: "nat option"
  reportBatchItemFailures :: "bool option"

text \<open>\<^verbatim>\<open>new SqsEventSource(telemetryQueue, { batchSize: 10 })\<close>: no other property is set.\<close>

definition telemetryEventSource :: sqs_event_source where
  "telemetryEventSource =
     \<lparr>source_queue = telemetryQueue, batchSize = Some 10, reportBatchItemFailures = None\<rparr>"

section \<open>The handler\<close>

record sqs_record =
  messageId :: string
  body :: string

record sqs_event =
  Records :: "sqs_record list"

text \<open>The input of a \<^verbatim>\<open>PutCommand\<close>. The handler's \<^verbatim>\<open>params\<close> sets the table name and the
  item only; a condition expression is what a conditional write would carry.\<close>

record put_input =
  TableName :: string
  Item :: "(string \<times> js) list"
  ConditionExpression :: "string option"

text \<open>
  What the handler reads from outside: \<^verbatim>\<open>JSON.parse\<close> (an error is the SyntaxError it
  throws), \<^verbatim>\<open>process.env.TABLE_NAME\<close>, the clock and the document client. The clock and the
  client are indexed by the position in \<^verbatim>\<open>event.Records\<close> of the record being processed:
  \<open>toISOString_now e i\<close> is what \<^verbatim>\<open>new Date().toISOString()\<close> returns there, and
  \<open>docClient_send e i p\<close> is \<open>None\<close> when the put \<open>p\<close> sent there resolves and the error it
  rejects with otherwise.
\<close>

record env =
  JSON_parse :: "string \<Rightarrow> js_error + js"
  TABLE_NAME :: string
  toISOString_now :: "nat \<Rightarrow> string"
  docClient_send :: "nat \<Rightarrow> put_input \<Rightarrow> js_error option"

datatype log_entry =
    Log_received sqs_event
  | Error_missing_fields
  | Info_stored js
  | Error_storing js js_error

text \<open>The classification of the spec, by the branch of the loop body a message leaves
  through: the \<^verbatim>\<open>continue\<close>, the end of the \<^verbatim>\<open>try\<close>, the \<^verbatim>\<open>catch\<close>. A message whose
  processing throws out of the loop has none.\<close>

datatype outcome = Success | SkippedInvalid | StorageFailure

text \<open>
  The effects of one invocation: the console, the puts sent to the document client, the
  puts among them that the client accepted, and the classification of each message the
  loop has finished.
\<close>

record handler_state =
  console :: "log_entry list"
  sent :: "put_input list"
  written :: "put_input list"
  outcomes :: "outcome list"

text \<open>\<^verbatim>\<open>{ siteId: siteId, ...body, timestamp: new Date().toISOString() }\<close>\<close>

definition make_Item :: "js \<Rightarrow> js \<Rightarrow> string \<Rightarrow> (string \<times> js) list" where
  "make_Item siteId msgBody now =
     AList.update ''timestamp'' (JStr now)
       (spread msgBody (AList.update ''siteId'' siteId []))"

text \<open>
  The template literals \<^verbatim>\<open>`... ${siteId}`\<close> of the two log lines convert \<^verbatim>\<open>siteId\<close> to a
  string. The conversion of an object calls its \<^verbatim>\<open>toString\<close>: an object decoded from JSON
  that has a property of that name has a value there that cannot be called, and the
  conversion throws a TypeError; without one it is \<^verbatim>\<open>[object Object]\<close>. The conversion of
  an array joins the conversions of its elements, and throws when one of them does. Every
  other value converts. Only whether the conversion completes is modelled, not the text:
  a log entry holds the value.
\<close>

fun converts :: "js \<Rightarrow> bool" where
  "converts (JObj kvs) = (map_of kvs ''toString'' = None)"
| "converts (JArr xs) = list_all converts xs"
| "converts v = True"

text \<open>
  The \<^verbatim>\<open>catch\<close> block: \<^verbatim>\<open>console.error(`Error storing data for siteId: ${siteId}`, error)\<close>.
  The TypeError of its template literal is thrown outside any \<^verbatim>\<open>try\<close> and leaves the loop.
\<close>

definition catch_block ::
    "js \<Rightarrow> js_error \<Rightarrow> handler_state \<Rightarrow> js_error option \<times> handler_state" where
  "catch_block siteId error st =
     (if converts siteId then
        (None, st\<lparr>console := console st @ [Error_storing siteId error],
                  outcomes := outcomes st @ [StorageFailure]\<rparr>)
      else (Some TypeError, st))"

text \<open>
  The \<^verbatim>\<open>try\<close> statement: the put is sent; when it resolves, the item is in the table and
  \<^verbatim>\<open>console.info\<close> logs the success, and the TypeError of its template literal is caught like
  an error of the put; when the put rejects, the \<^verbatim>\<open>catch\<close> block runs with its error.
\<close>

definition try_put ::
    "env \<Rightarrow> nat \<Rightarrow> js \<Rightarrow> put_input \<Rightarrow> handler_state \<Rightarrow> js_error option \<times> handler_state" where
  "try_put e i siteId params st =
     (case docClient_send e i params of
        None \<Rightarrow>
          if converts siteId then
            (None, st\<lparr>console := console st @ [Info_stored siteId],
                      sent := sent st @ [params],
                      written := written st @ [params],
                      outcomes := outcomes st @ [Success]\<rparr>)
          else
            catch_block siteId TypeError
              (st\<lparr>sent := sent st @ [params], written := written st @ [params]\<rparr>)
      | Some error \<Rightarrow> catch_block siteId error (st\<lparr>sent := sent st @ [params]\<rparr>))"

text \<open>
  The body of the loop, for the record at position \<open>i\<close>: the exception that leaves the loop,
  if one does, and the effects made. Nothing catches the exception of \<^verbatim>\<open>JSON.parse\<close> or of
  a member read.
\<close>

definition process_record ::
    "env \<Rightarrow> nat \<Rightarrow> sqs_record \<Rightarrow> handler_state \<Rightarrow> js_error option \<times> handler_state" where
  "process_record e i r st =
     (case JSON_parse e (body r) of
        Inl err \<Rightarrow> (Some err, st)
      | Inr message \<Rightarrow>
          (case get_member message ''siteId'' of
             Inl err \<Rightarrow> (Some err, st)
           | Inr siteId \<Rightarrow>
               (case get_member message ''body'' of
                  Inl err \<Rightarrow> (Some err, st)
                | Inr msgBody \<Rightarrow>
                    if js_not siteId \<or> js_not msgBody then
                      (None, st\<lparr>console := console st @ [Error_missing_fields],
                                outcomes := outcomes st @ [SkippedInvalid]\<rparr>)
                    else
                      let params =
                            \<lparr>TableName = TABLE_NAME e,
                             Item = make_Item siteId msgBody (toISOString_now e i),
                             ConditionExpression = None\<rparr>
                      in try_put e i siteId params st)))"

text \<open>\<^verbatim>\<open>for (const record of event.Records)\<close>: an exception ends the loop with the effects
  made so far.\<close>

fun for_records ::
    "env \<Rightarrow> nat \<Rightarrow> sqs_record list \<Rightarrow> handler_state \<Rightarrow> js_error option \<times> handler_state" where
  "for_records e i [] st = (None, st)"
| "for_records e i (r # rs) st =
     (case process_record e i r st of
        (Some err, st') \<Rightarrow> (Some err, st')
      | (None, st') \<Rightarrow> for_records e (Suc i) rs st')"

text \<open>The handler: \<open>None\<close> when its promise resolves (with no value: the function returns
  nothing), \<open>Some err\<close> when it rejects.\<close>

definition sqsHandler :: "env \<Rightarrow> sqs_event \<Rightarrow> js_error option \<times> handler_state" where
  "sqsHandler e event =
     for_records e 0 (Records event)
       \<lparr>console = [Log_received event], sent = [], written = [], outcomes = []\<rparr>"

text \<open>
  An auxiliary reading of the loop body, for the proofs: what the body has settled when it
  reaches the \<^verbatim>\<open>try\<close> statement. It throws, it skips the message, or it has built a put. The
  lemma \<open>process_record_decide\<close> shows that the loop body is this decision followed by the
  \<^verbatim>\<open>try\<close> statement.
\<close>

datatype decision = Throws js_error | Skips | Puts js put_input

definition decide :: "env \<Rightarrow> nat \<Rightarrow> sqs_record \<Rightarrow> decision" where
  "decide e i r =
     (case JSON_parse e (body r) of
        Inl err \<Rightarrow> Throws err
      | Inr message \<Rightarrow>
          (case get_member message ''siteId'' of
             Inl err \<Rightarrow> Throws err
           | Inr siteId \<Rightarrow>
               (case get_member message ''body'' of
                  Inl err \<Rightarrow> Throws err
                | Inr msgBody \<Rightarrow>
                    if js_not siteId \<or> js_not msgBody then Skips
                    else Puts siteId
                           \<lparr>TableName = TABLE_NAME e,
                            Item = make_Item siteId msgBody (toISOString_now e i),
                            ConditionExpression = None\<rparr>)))"

section \<open>The broker's side\<close>

text \<open>
  What the Lambda event source mapping does with a batch once the invocation is over, for
  the mapping the stack declares (\<^verbatim>\<open>reportBatchItemFailures\<close> is not set, and the handler
  returns no list of failed items): when the handler's promise resolves, every message of
  the batch is deleted from the queue; when it rejects, none is, and each becomes visible
  again after the visibility timeout. The position \<open>i\<close> of the message plays no part.
\<close>

definition acknowledged :: "js_error option \<times> handler_state \<Rightarrow> nat \<Rightarrow> bool" where
  "acknowledged result i = (fst result = None)"

text \<open>DynamoDB accepts an item only if it has the key attributes of the table, each of the
  declared type.\<close>

fun has_type :: "attribute_type \<Rightarrow> js \<Rightarrow> bool" where
  "has_type STRING (JStr s) = True"
| "has_type NUMBER (JNum n) = True"
| "has_type t v = False"

definition has_key_attribute :: "attribute \<Rightarrow> (string \<times> js) list \<Rightarrow> bool" where
  "has_key_attribute a item =
     (case map_of item (attr_name a) of Some v \<Rightarrow> has_type (attr_type a) v | None \<Rightarrow> False)"

definition matches_key_schema :: "table_props \<Rightarrow> (string \<times> js) list \<Rightarrow> bool" where
  "matches_key_schema t item =
     (has_key_attribute (partitionKey t) item \<and>
      (case sortKey t of Some a \<Rightarrow> has_key_attribute a item | None \<Rightarrow> True))"

section \<open>Example inputs\<close>

text \<open>Wire bodies, and the value \<^verbatim>\<open>JSON.parse\<close> returns for each.\<close>

definition wire_s1 :: string where
  "wire_s1 = ''{\"siteId\":\"s1\",\"body\":{\"temp\":21}}''"

definition wire_blank :: string where
  "wire_blank = ''{\"siteId\":\"\",\"body\":{}}''"

definition wire_s2 :: string where
  "wire_s2 = ''{\"siteId\":\"s2\"}''"

definition wire_s3 :: string where
  "wire_s3 = ''{\"siteId\":\"s3\",\"body\":{\"temp\":19}}''"

definition wire_empty_body :: string where
  "wire_empty_body = ''{\"siteId\":\"s1\",\"body\":{}}''"

definition wire_body_siteId :: string where
  "wire_body_siteId =
     ''{\"siteId\":\"s1\",\"body\":{\"siteId\":\"s2\",\"timestamp\":\"t0\",\"temp\":21}}''"

definition wire_number_body :: string where
  "wire_number_body = ''{\"siteId\":\"s1\",\"body\":5}''"

definition wire_string_body :: string where
  "wire_string_body = ''{\"siteId\":\"s1\",\"body\":\"ab\"}''"

definition wire_object_siteId :: string where
  "wire_object_siteId = ''{\"siteId\":{\"toString\":1},\"body\":{\"t\":1}}''"

definition wire_table_keys :: string where
  "wire_table_keys =
     ''{\"siteId\":\"s1\",\"body\":{\"deviceId\":\"d1\",\"creationTimeISO\":\"t1\"}}''"

definition wire_not_json :: string where
  "wire_not_json = ''{siteId: s1''"

definition decoded :: "(string \<times> js) list" where
  "decoded =
     [(wire_s1, JObj [(''siteId'', JStr ''s1''), (''body'', JObj [(''temp'', JNum 21)])]),
      (wire_blank, JObj [(''siteId'', JStr []), (''body'', JObj [])]),
      (wire_s2, JObj [(''siteId'', JStr ''s2'')]),
      (wire_s3, JObj [(''siteId'', JStr ''s3''), (''body'', JObj [(''temp'', JNum 19)])]),
      (wire_empty_body, JObj [(''siteId'', JStr ''s1''), (''body'', JObj [])]),
      (wire_body_siteId,
         JObj [(''siteId'', JStr ''s1''),
               (''body'', JObj [(''siteId'', JStr ''s2''), (''timestamp'', JStr ''t0''),
                                (''temp'', JNum 21)])]),
      (wire_number_body, JObj [(''siteId'', JStr ''s1''), (''body'', JNum 5)]),
      (wire_string_body, JObj [(''siteId'', JStr ''s1''), (''body'', JStr ''ab'')]),
      (wire_object_siteId,
         JObj [(''siteId'', JObj [(''toString'', JNum 1)]), (''body'', JObj [(''t'', JNum 1)])]),
      (wire_table_keys,
         JObj [(''siteId'', JStr ''s1''),
               (''body'', JObj [(''deviceId'', JStr ''d1''),
                                (''creationTimeISO'', JStr ''t1'')])])]"

text \<open>\<^verbatim>\<open>JSON.parse\<close> on the wire bodies above; \<open>wire_not_json\<close> is the one string the examples
  use besides them, and it is not JSON.\<close>

definition parse_example :: "string \<Rightarrow> js_error + js" where
  "parse_example s = (case map_of decoded s of Some v \<Rightarrow> Inr v | None \<Rightarrow> Inl SyntaxError)"

text \<open>An environment whose clock reads \<open>clock\<close> and whose document client answers \<open>client\<close>.\<close>

definition example_env :: "(nat \<Rightarrow> string) \<Rightarrow> (nat \<Rightarrow> put_input \<Rightarrow> js_error option) \<Rightarrow> env" where
  "example_env clock client =
     \<lparr>JSON_parse = parse_example, TABLE_NAME = ''TelemetriesStore'',
      toISOString_now = clock, docClient_send = client\<rparr>"

definition tick :: "nat \<Rightarrow> string" where
  "tick i = ''2024-01-01T00:00:0'' @ decimal i @ ''.000Z''"

text \<open>A document client that accepts every put, and one that rejects the put of the record
  at position \<open>k\<close> only.\<close>

definition accept_all :: "nat \<Rightarrow> put_input \<Rightarrow> js_error option" where
  "accept_all i p = None"

definition reject_at :: "nat \<Rightarrow> nat \<Rightarrow> put_input \<Rightarrow> js_error option" where
  "reject_at k i p =
     (if i = k then Some (ServiceError ''ProvisionedThroughputExceededException'') else None)"

definition batch :: "string list \<Rightarrow> sqs_event" where
  "batch ws = \<lparr>Records = map (\<lambda>w. \<lparr>messageId = ''m'', body = w\<rparr>) ws\<rparr>"

section \<open>Items\<close>

lemma map_of_fold_update:
  "distinct (map fst kvs) \<Longrightarrow>
   map_of (fold (\<lambda>(k, x). AList.update k x) kvs obj) k =
     (case map_of kvs k of Some v \<Rightarrow> Some v | None \<Rightarrow> map_of obj k)"
proof (induction kvs arbitrary: obj)
  case Nil
  then show ?case by simp
next
  case (Cons a kvs)
  obtain k0 v0 where a: "a = (k0, v0)" by (cases a)
  from Cons.prems a have d: "distinct (map fst kvs)" and n: "k0 \<notin> fst ` set kvs"
    by auto
  from n have none: "map_of kvs k0 = None"
    by (simp add: map_of_eq_None_iff)
  show ?case
    using Cons.IH [OF d, of "AList.update k0 v0 obj"] none
    by (simp add: a update_conv' split: option.splits)
qed

lemma keys_fold_update:
  "fst ` set (fold (\<lambda>(k, x). AList.update k x) kvs obj) = fst ` set kvs \<union> fst ` set obj"
proof (induction kvs arbitrary: obj)
  case Nil
  then show ?case by simp
next
  case (Cons a kvs)
  obtain k0 v0 where a: "a = (k0, v0)" by (cases a)
  show ?case
    using Cons.IH [of "AList.update k0 v0 obj"]
    by (auto simp add: a dom_update)
qed

lemma map_of_fold_update_other:
  "k \<notin> fst ` set kvs \<Longrightarrow>
   map_of (fold (\<lambda>(k, x). AList.update k x) kvs obj) k = map_of obj k"
proof (induction kvs arbitrary: obj)
  case Nil
  then show ?case by simp
next
  case (Cons a kvs)
  obtain k0 v0 where a: "a = (k0, v0)" by (cases a)
  from Cons.prems a have "k \<noteq> k0" and "k \<notin> fst ` set kvs"
    by auto
  with Cons.IH [of "AList.update k0 v0 obj"] show ?case
    by (simp add: a update_conv')
qed

lemma make_Item_timestamp:
  "map_of (make_Item siteId msgBody now) ''timestamp'' = Some (JStr now)"
  by (simp add: make_Item_def update_conv')

lemma make_Item_field:
  assumes "distinct (map fst (own_props msgBody))" and "k \<noteq> ''timestamp''"
  shows "map_of (make_Item siteId msgBody now) k =
     (case map_of (own_props msgBody) k of
        Some v \<Rightarrow> Some v
      | None \<Rightarrow> if k = ''siteId'' then Some siteId else None)"
  using assms
  by (simp add: make_Item_def spread_def update_conv' map_of_fold_update split: option.splits)

lemma make_Item_keys:
  "fst ` set (make_Item siteId msgBody now) =
     {''siteId'', ''timestamp''} \<union> fst ` set (own_props msgBody)"
  by (auto simp add: make_Item_def spread_def dom_update keys_fold_update)

lemma has_type_STRING: "has_type STRING v = (\<exists>s. v = JStr s)"
  by (cases v) simp_all

section \<open>The loop body\<close>

lemma process_record_decide:
  "process_record e i r st =
     (case decide e i r of
        Throws err \<Rightarrow> (Some err, st)
      | Skips \<Rightarrow>
          (None, st\<lparr>console := console st @ [Error_missing_fields],
                    outcomes := outcomes st @ [SkippedInvalid]\<rparr>)
      | Puts siteId p \<Rightarrow> try_put e i siteId p st)"
  by (simp add: process_record_def decide_def Let_def split: sum.splits)

lemma decide_client [simp]: "decide (e\<lparr>docClient_send := c\<rparr>) i r = decide e i r"
  by (simp add: decide_def split: sum.splits)

lemma decide_skip:
  assumes "JSON_parse e (body r) = Inr message"
    and "get_member message ''siteId'' = Inr siteId"
    and "get_member message ''body'' = Inr msgBody"
    and "\<not> truthy siteId \<or> \<not> truthy msgBody"
  shows "decide e i r = Skips"
  using assms by (auto simp add: decide_def js_not_def)

lemma decide_put:
  assumes "JSON_parse e (body r) = Inr message"
    and "get_member message ''siteId'' = Inr siteId"
    and "get_member message ''body'' = Inr msgBody"
    and "truthy siteId" and "truthy msgBody"
  shows "decide e i r =
     Puts siteId \<lparr>TableName = TABLE_NAME e,
                  Item = make_Item siteId msgBody (toISOString_now e i),
                  ConditionExpression = None\<rparr>"
  using assms by (simp add: decide_def js_not_def)

lemma try_put_sent: "sent (snd (try_put e i siteId p st)) = sent st @ [p]"
  by (simp add: try_put_def catch_block_def split: option.splits)

lemma try_put_written:
  "docClient_send e i p = None \<Longrightarrow> written (snd (try_put e i siteId p st)) = written st @ [p]"
  by (simp add: try_put_def catch_block_def)

lemma try_put_success:
  "converts siteId \<Longrightarrow> docClient_send e i p = None \<Longrightarrow>
   try_put e i siteId p st =
     (None, st\<lparr>console := console st @ [Info_stored siteId], sent := sent st @ [p],
               written := written st @ [p], outcomes := outcomes st @ [Success]\<rparr>)"
  by (simp add: try_put_def)

lemma try_put_converts:
  "converts siteId \<Longrightarrow>
   \<exists>st' oc. try_put e i siteId p st = (None, st') \<and> sent st' = sent st @ [p] \<and>
     outcomes st' = outcomes st @ [oc] \<and> oc \<noteq> SkippedInvalid"
  by (cases "docClient_send e i p") (simp_all add: try_put_def catch_block_def)

section \<open>The loop\<close>

lemma for_records_client:
  assumes "sent st' = sent st" and "length (outcomes st') = length (outcomes st)"
  shows "fst (for_records (e\<lparr>docClient_send := c\<rparr>) i rs st') = fst (for_records e i rs st) \<and>
     sent (snd (for_records (e\<lparr>docClient_send := c\<rparr>) i rs st')) =
       sent (snd (for_records e i rs st)) \<and>
     length (outcomes (snd (for_records (e\<lparr>docClient_send := c\<rparr>) i rs st'))) =
       length (outcomes (snd (for_records e i rs st)))"
  using assms
proof (induction rs arbitrary: i st st')
  case Nil
  then show ?case by simp
next
  case (Cons r rs)
  show ?case
  proof (cases "decide e i r")
    case (Throws err)
    with Cons.prems show ?thesis by (simp add: process_record_decide)
  next
    case Skips
    with Cons.prems Cons.IH show ?thesis by (simp add: process_record_decide)
  next
    case (Puts siteId p)
    show ?thesis
    proof (cases "converts siteId")
      case True
      with Puts Cons.prems Cons.IH show ?thesis
        by (simp add: process_record_decide try_put_def catch_block_def split: option.splits)
    next
      case False
      with Puts Cons.prems show ?thesis
        by (simp add: process_record_decide try_put_def catch_block_def split: option.splits)
    qed
  qed
qed

section \<open>Evaluation on the examples\<close>

lemmas example_defs =
  batch_def example_env_def parse_example_def decoded_def accept_all_def reject_at_def
  wire_s1_def wire_blank_def wire_s2_def wire_s3_def wire_empty_body_def wire_body_siteId_def
  wire_number_body_def wire_string_body_def wire_object_siteId_def wire_table_keys_def
  wire_not_json_def tick_def decimal.simps digit_char_def

lemmas handler_defs =
  sqsHandler_def process_record_def try_put_def catch_block_def js_not_def make_Item_def
  spread_def Let_def

section \<open>The broker configuration\<close>

text \<open>
  C8. The stack configures the broker as the spec's defaults say: the event source of the
  processor reads the telemetry queue in batches of at most 10 messages, the queue hides a
  delivered message for a visibility timeout of 60 seconds, and its redrive policy sends a
  message to the dead-letter queue after a maximum receive count of 3; the dead-letter queue
  has no redrive policy of its own.
\<close>

theorem C8_broker_configuration:
  "source_queue telemetryEventSource = telemetryQueue \<and>
   batchSize telemetryEventSource = Some 10 \<and>
   visibilityTimeout telemetryQueue = Some (Duration_seconds 60) \<and>
   deadLetterQueue telemetryQueue = Some (DeadLetterQueue 3 dlq) \<and>
   deadLetterQueue dlq = None"
  by (simp add: telemetryEventSource_def telemetryQueue_def dlq_def)

section \<open>The end-to-end scenario\<close>

text \<open>
  C7. For the batch of three messages that decode to
  \<^verbatim>\<open>{siteId:"s1", body:{"temp":21}}\<close>, \<^verbatim>\<open>{siteId:"", body:{}}\<close> and \<^verbatim>\<open>{siteId:"s2"}\<close>, with a
  document client that accepts every put, the handler completes, the outcomes are
  Success, SkippedInvalid, SkippedInvalid, and exactly one record is written: the one of
  \<^verbatim>\<open>s1\<close>, with the field \<^verbatim>\<open>temp\<close> of its body and the time read while it was processed.
\<close>

theorem C7_end_to_end:
  assumes "JSON_parse e (body r1) =
      Inr (JObj [(''siteId'', JStr ''s1''), (''body'', JObj [(''temp'', JNum 21)])])"
    and "JSON_parse e (body r2) = Inr (JObj [(''siteId'', JStr ''''), (''body'', JObj [])])"
    and "JSON_parse e (body r3) = Inr (JObj [(''siteId'', JStr ''s2'')])"
    and "\<forall>i p. docClient_send e i p = None"
  shows "fst (sqsHandler e \<lparr>Records = [r1, r2, r3]\<rparr>) = None \<and>
     outcomes (snd (sqsHandler e \<lparr>Records = [r1, r2, r3]\<rparr>)) =
       [Success, SkippedInvalid, SkippedInvalid] \<and>
     written (snd (sqsHandler e \<lparr>Records = [r1, r2, r3]\<rparr>)) =
       [\<lparr>TableName = TABLE_NAME e,
         Item = [(''siteId'', JStr ''s1''), (''temp'', JNum 21),
                 (''timestamp'', JStr (toISOString_now e 0))],
         ConditionExpression = None\<rparr>]"
  using assms by (simp add: handler_defs)

text \<open>
  C7 on the three wire bodies of the examples.
\<close>

theorem C7_end_to_end_witness:
  "outcomes (snd (sqsHandler (example_env tick accept_all)
       (batch [wire_s1, wire_blank, wire_s2]))) =
     [Success, SkippedInvalid, SkippedInvalid] \<and>
   map Item (written (snd (sqsHandler (example_env tick accept_all)
       (batch [wire_s1, wire_blank, wire_s2])))) =
     [[(''siteId'', JStr ''s1''), (''temp'', JNum 21),
       (''timestamp'', JStr ''2024-01-01T00:00:00.000Z'')]]"
  using C7_end_to_end [of "example_env tick accept_all"
      "\<lparr>messageId = ''m'', body = wire_s1\<rparr>" "\<lparr>messageId = ''m'', body = wire_blank\<rparr>"
      "\<lparr>messageId = ''m'', body = wire_s2\<rparr>"]
  by (simp add: example_defs)

section \<open>The write and the key schema of the table\<close>

text \<open>
  C1, as the claim states it, fails: for the valid message \<^verbatim>\<open>{siteId:"s1", body:{"temp":21}}\<close>
  the put carries no condition expression and its item has the attributes \<^verbatim>\<open>siteId\<close>,
  \<^verbatim>\<open>temp\<close> and \<^verbatim>\<open>timestamp\<close>, but the table the stack declares is keyed by \<^verbatim>\<open>deviceId\<close> and
  \<^verbatim>\<open>creationTimeISO\<close>: the item does not match the key schema of the table.
\<close>

theorem C1_item_lacks_table_keys:
  "attr_name (partitionKey telemetryTable) = ''deviceId'' \<and>
   map_option attr_name (sortKey telemetryTable) = Some ''creationTimeISO'' \<and>
   map (\<lambda>p. map fst (Item p))
     (sent (snd (sqsHandler (example_env tick accept_all) (batch [wire_s1])))) =
     [[''siteId'', ''temp'', ''timestamp'']] \<and>
   map ConditionExpression
     (sent (snd (sqsHandler (example_env tick accept_all) (batch [wire_s1])))) = [None] \<and>
   map (\<lambda>p. matches_key_schema telemetryTable (Item p))
     (sent (snd (sqsHandler (example_env tick accept_all) (batch [wire_s1])))) = [False]"
  by (simp add: handler_defs example_defs telemetryTable_def matches_key_schema_def
      has_key_attribute_def)

text \<open>
  C1, amended. For every valid message the processor sends one put to the table of
  \<^verbatim>\<open>TABLE_NAME\<close>, with no condition expression, whose item carries the attributes \<^verbatim>\<open>siteId\<close>
  and \<^verbatim>\<open>timestamp\<close>. These are not the key attributes of the storage table, which is keyed
  by \<^verbatim>\<open>(deviceId, creationTimeISO)\<close>: the item matches the key schema of the table exactly when
  the body supplies string fields of these two names, which the spread puts at the top
  level of the item. (The names of the fields of a body are distinct, as those of every
  object are.)
\<close>

theorem C1_unconditional_put:
  assumes "JSON_parse e (body r) = Inr message"
    and "get_member message ''siteId'' = Inr siteId"
    and "get_member message ''body'' = Inr msgBody"
    and "truthy siteId" and "truthy msgBody"
    and "distinct (map fst (own_props msgBody))"
  shows "\<exists>p. sent (snd (process_record e i r st)) = sent st @ [p] \<and>
     TableName p = TABLE_NAME e \<and> ConditionExpression p = None \<and>
     ''siteId'' \<in> fst ` set (Item p) \<and> ''timestamp'' \<in> fst ` set (Item p) \<and>
     matches_key_schema telemetryTable (Item p) =
       (\<exists>d c. map_of (own_props msgBody) ''deviceId'' = Some (JStr d) \<and>
              map_of (own_props msgBody) ''creationTimeISO'' = Some (JStr c))"
proof -
  define p where "p = \<lparr>TableName = TABLE_NAME e,
      Item = make_Item siteId msgBody (toISOString_now e i), ConditionExpression = None\<rparr>"
  have item: "Item p = make_Item siteId msgBody (toISOString_now e i)"
    by (simp add: p_def)
  have "decide e i r = Puts siteId p"
    unfolding p_def by (rule decide_put [OF assms(1-5)])
  then have snt: "sent (snd (process_record e i r st)) = sent st @ [p]"
    by (simp add: process_record_decide try_put_sent)
  have plain: "TableName p = TABLE_NAME e \<and> ConditionExpression p = None"
    by (simp add: p_def)
  have names: "''siteId'' \<in> fst ` set (Item p) \<and> ''timestamp'' \<in> fst ` set (Item p)"
    by (simp add: item make_Item_keys)
  have dev: "has_key_attribute \<lparr>attr_name = ''deviceId'', attr_type = STRING\<rparr> (Item p) =
      (\<exists>d. map_of (own_props msgBody) ''deviceId'' = Some (JStr d))"
    by (auto simp add: has_key_attribute_def item make_Item_field [OF assms(6)] has_type_STRING
        split: option.splits)
  have cre: "has_key_attribute \<lparr>attr_name = ''creationTimeISO'', attr_type = STRING\<rparr> (Item p) =
      (\<exists>c. map_of (own_props msgBody) ''creationTimeISO'' = Some (JStr c))"
    by (auto simp add: has_key_attribute_def item make_Item_field [OF assms(6)] has_type_STRING
        split: option.splits)
  have keys: "matches_key_schema telemetryTable (Item p) =
      (\<exists>d c. map_of (own_props msgBody) ''deviceId'' = Some (JStr d) \<and>
             map_of (own_props msgBody) ''creationTimeISO'' = Some (JStr c))"
    by (simp add: matches_key_schema_def telemetryTable_def dev cre)
  from snt plain names keys show ?thesis
    by (intro exI [of _ p] conjI) simp_all
qed

text \<open>
  C1 on a message whose body carries \<^verbatim>\<open>deviceId\<close> and \<^verbatim>\<open>creationTimeISO\<close>.
\<close>

theorem C1_unconditional_put_witness:
  "\<exists>p. sent (snd (process_record (example_env tick accept_all) 0
       \<lparr>messageId = ''m'', body = wire_table_keys\<rparr>
       \<lparr>console = [], sent = [], written = [], outcomes = []\<rparr>)) = [p] \<and>
     ConditionExpression p = None \<and> matches_key_schema telemetryTable (Item p)"
proof -
  have d: "distinct (map fst (own_props (JObj [(''deviceId'', JStr ''d1''),
      (''creationTimeISO'', JStr ''t1'')])))"
    by simp
  from C1_unconditional_put [where e = "example_env tick accept_all"
      and r = "\<lparr>messageId = ''m'', body = wire_table_keys\<rparr>"
      and message = "JObj [(''siteId'', JStr ''s1''),
             (''body'', JObj [(''deviceId'', JStr ''d1''), (''creationTimeISO'', JStr ''t1'')])]"
      and siteId = "JStr ''s1''"
      and msgBody = "JObj [(''deviceId'', JStr ''d1''), (''creationTimeISO'', JStr ''t1'')]"
      and i = 0 and st = "\<lparr>console = [], sent = [], written = [], outcomes = []\<rparr>",
      OF _ _ _ _ _ d]
  obtain p where "sent (snd (process_record (example_env tick accept_all) 0
       \<lparr>messageId = ''m'', body = wire_table_keys\<rparr>
       \<lparr>console = [], sent = [], written = [], outcomes = []\<rparr>)) = [p]"
    and "ConditionExpression p = None" and "matches_key_schema telemetryTable (Item p)"
    by (auto simp add: example_defs)
  then show ?thesis
    by (intro exI conjI)
qed

section \<open>A body that is not JSON\<close>

text \<open>
  C2. The claim: a message whose wire body is not valid JSON is classified SkippedInvalid,
  the other messages of the batch are still processed and the handler completes. The code
  at a batch of a valid message, a body that is not JSON and another valid message: the
  handler rejects with the SyntaxError, the first message has been written, the third is
  never processed, and no message of the batch is acknowledged.
\<close>

theorem C2_decode_failure_aborts_batch:
  "JSON_parse (example_env tick accept_all) wire_not_json = Inl SyntaxError \<and>
   fst (sqsHandler (example_env tick accept_all) (batch [wire_s1, wire_not_json, wire_s3])) =
     Some SyntaxError \<and>
   outcomes (snd (sqsHandler (example_env tick accept_all)
     (batch [wire_s1, wire_not_json, wire_s3]))) = [Success] \<and>
   length (sent (snd (sqsHandler (example_env tick accept_all)
     (batch [wire_s1, wire_not_json, wire_s3])))) = 1 \<and>
   acknowledged (sqsHandler (example_env tick accept_all)
     (batch [wire_s1, wire_not_json, wire_s3])) 1 = False"
  by (simp add: handler_defs example_defs acknowledged_def)

section \<open>Acknowledgment\<close>

text \<open>
  C3, as the claim states it, fails: a batch of one valid message whose put the document
  client rejects is classified StorageFailure, the handler completes, and the message is
  acknowledged.
\<close>

theorem C3_counterexample:
  "outcomes (snd (sqsHandler (example_env tick (reject_at 0)) (batch [wire_s1]))) =
     [StorageFailure] \<and>
   fst (sqsHandler (example_env tick (reject_at 0)) (batch [wire_s1])) = None \<and>
   acknowledged (sqsHandler (example_env tick (reject_at 0)) (batch [wire_s1])) 0"
  by (simp add: handler_defs example_defs acknowledged_def)

text \<open>
  C3, amended. The handler gives the broker one signal for the whole batch, its completing
  or its throwing, and that signal is the same whatever the document client answers to the
  puts: the handler signals a failed storage write for no message. So whether a message is
  acknowledged depends neither on its position in the batch nor on the result of any
  storage write, and a message classified StorageFailure is acknowledged exactly when the
  other messages of its batch are.
\<close>

theorem C3_one_signal_per_batch:
  "fst (sqsHandler (e\<lparr>docClient_send := c\<rparr>) ev) = fst (sqsHandler e ev) \<and>
   acknowledged (sqsHandler (e\<lparr>docClient_send := c\<rparr>) ev) i = acknowledged (sqsHandler e ev) j"
proof -
  define st0 where
    "st0 = \<lparr>console = [Log_received ev], sent = [], written = [], outcomes = []\<rparr>"
  have "fst (for_records (e\<lparr>docClient_send := c\<rparr>) 0 (Records ev) st0) =
      fst (for_records e 0 (Records ev) st0)"
    using for_records_client [where st' = st0 and st = st0 and e = e and c = c and i = 0
        and rs = "Records ev"]
    by simp
  then show ?thesis
    by (simp add: acknowledged_def sqsHandler_def st0_def)
qed

text \<open>
  C3 on a batch of three messages, the put of the second rejected.
\<close>

theorem C3_one_signal_per_batch_witness:
  "fst (sqsHandler (example_env tick (reject_at 1)) (batch [wire_s1, wire_s3, wire_s2])) = None \<and>
   fst (sqsHandler (example_env tick accept_all) (batch [wire_s1, wire_s3, wire_s2])) = None \<and>
   outcomes (snd (sqsHandler (example_env tick (reject_at 1))
     (batch [wire_s1, wire_s3, wire_s2]))) = [Success, StorageFailure, SkippedInvalid] \<and>
   acknowledged (sqsHandler (example_env tick (reject_at 1))
     (batch [wire_s1, wire_s3, wire_s2])) 1"
  using C3_one_signal_per_batch [where e = "example_env tick (reject_at 1)"
      and c = accept_all and ev = "batch [wire_s1, wire_s3, wire_s2]" and i = 1 and j = 1]
  by (simp add: handler_defs example_defs acknowledged_def)

section \<open>Validation\<close>

text \<open>
  C4, as the claim states it, fails: the message \<^verbatim>\<open>{siteId:"s1", body:{}}\<close>, whose body is
  the empty object, is not skipped. A put is sent for it, with the attributes \<^verbatim>\<open>siteId\<close>
  and \<^verbatim>\<open>timestamp\<close>.
\<close>

theorem C4_counterexample:
  "JSON_parse (example_env tick accept_all) wire_empty_body =
     Inr (JObj [(''siteId'', JStr ''s1''), (''body'', JObj [])]) \<and>
   outcomes (snd (sqsHandler (example_env tick accept_all) (batch [wire_empty_body]))) =
     [Success] \<and>
   map Item (sent (snd (sqsHandler (example_env tick accept_all) (batch [wire_empty_body])))) =
     [[(''siteId'', JStr ''s1''), (''timestamp'', JStr ''2024-01-01T00:00:00.000Z'')]]"
  by (simp add: handler_defs example_defs)

text \<open>
  C4, amended. For every message whose decoded payload is not \<^verbatim>\<open>null\<close> and whose
  \<^verbatim>\<open>siteId\<close> or \<^verbatim>\<open>body\<close> is missing or falsy (\<^verbatim>\<open>null\<close>, \<^verbatim>\<open>false\<close>, \<^verbatim>\<open>0\<close> or the empty
  string), the outcome is SkippedInvalid and no put is sent for that message.
\<close>

theorem C4_falsy_fields_skipped:
  assumes "JSON_parse e (body r) = Inr message"
    and "get_member message ''siteId'' = Inr siteId"
    and "get_member message ''body'' = Inr msgBody"
    and "\<not> truthy siteId \<or> \<not> truthy msgBody"
  shows "\<exists>st'. process_record e i r st = (None, st') \<and>
     outcomes st' = outcomes st @ [SkippedInvalid] \<and>
     sent st' = sent st \<and> written st' = written st"
  using decide_skip [OF assms, of i] by (simp add: process_record_decide)

text \<open>
  C4 on the message \<^verbatim>\<open>{siteId:"s2"}\<close>, which has no body.
\<close>

theorem C4_falsy_fields_skipped_witness:
  "\<exists>st'. process_record (example_env tick accept_all) 0 \<lparr>messageId = ''m'', body = wire_s2\<rparr>
       \<lparr>console = [], sent = [], written = [], outcomes = []\<rparr> = (None, st') \<and>
     outcomes st' = [SkippedInvalid] \<and> sent st' = [] \<and> written st' = []"
  using C4_falsy_fields_skipped [where e = "example_env tick accept_all"
      and r = "\<lparr>messageId = ''m'', body = wire_s2\<rparr>"
      and message = "JObj [(''siteId'', JStr ''s2'')]"
      and siteId = "JStr ''s2''" and msgBody = JUndefined and i = 0
      and st = "\<lparr>console = [], sent = [], written = [], outcomes = []\<rparr>"]
  by (simp add: example_defs)

text \<open>
  C10. Validation tests the truthiness of \<^verbatim>\<open>body\<close> only. For every message with a
  non-empty string as \<^verbatim>\<open>siteId\<close> and a truthy body that is not an object, the message is
  not skipped: a put is sent, whose item is the spread of that body between \<^verbatim>\<open>siteId\<close> and
  \<^verbatim>\<open>timestamp\<close>; for a number or \<^verbatim>\<open>true\<close> the item has these two attributes only.
\<close>

theorem C10_truthy_non_object_body:
  assumes "JSON_parse e (body r) = Inr message"
    and "get_member message ''siteId'' = Inr (JStr s)" and "s \<noteq> []"
    and "get_member message ''body'' = Inr msgBody"
    and "truthy msgBody" and "\<forall>kvs. msgBody \<noteq> JObj kvs"
  shows "\<exists>st' oc. process_record e i r st = (None, st') \<and>
     outcomes st' = outcomes st @ [oc] \<and> oc \<noteq> SkippedInvalid \<and>
     sent st' = sent st @
       [\<lparr>TableName = TABLE_NAME e,
         Item = make_Item (JStr s) msgBody (toISOString_now e i),
         ConditionExpression = None\<rparr>] \<and>
     ((\<forall>t. msgBody \<noteq> JStr t) \<and> (\<forall>xs. msgBody \<noteq> JArr xs) \<longrightarrow>
        make_Item (JStr s) msgBody (toISOString_now e i) =
          [(''siteId'', JStr s), (''timestamp'', JStr (toISOString_now e i))])"
proof -
  define p where "p = \<lparr>TableName = TABLE_NAME e,
      Item = make_Item (JStr s) msgBody (toISOString_now e i), ConditionExpression = None\<rparr>"
  from assms(3) have sid: "truthy (JStr s)"
    by simp
  have "decide e i r = Puts (JStr s) p"
    unfolding p_def by (rule decide_put [OF assms(1,2,4) sid assms(5)])
  then have run: "\<exists>st' oc. process_record e i r st = (None, st') \<and>
      outcomes st' = outcomes st @ [oc] \<and> oc \<noteq> SkippedInvalid \<and> sent st' = sent st @ [p]"
    using try_put_converts [of "JStr s" e i p st]
    by (auto simp add: process_record_decide)
  have plain: "(\<forall>t. msgBody \<noteq> JStr t) \<and> (\<forall>xs. msgBody \<noteq> JArr xs) \<longrightarrow>
      make_Item (JStr s) msgBody (toISOString_now e i) =
        [(''siteId'', JStr s), (''timestamp'', JStr (toISOString_now e i))]"
    using assms(6) by (cases msgBody) (simp_all add: make_Item_def spread_def)
  from run plain show ?thesis
    by (simp add: p_def)
qed

text \<open>
  C10 on the message \<^verbatim>\<open>{siteId:"s1", body:5}\<close>.
\<close>

theorem C10_truthy_non_object_body_witness:
  "\<exists>st' oc. process_record (example_env tick accept_all) 0
       \<lparr>messageId = ''m'', body = wire_number_body\<rparr>
       \<lparr>console = [], sent = [], written = [], outcomes = []\<rparr> = (None, st') \<and>
     outcomes st' = [oc] \<and> oc \<noteq> SkippedInvalid \<and>
     map Item (sent st') =
       [[(''siteId'', JStr ''s1''), (''timestamp'', JStr ''2024-01-01T00:00:00.000Z'')]]"
proof -
  from C10_truthy_non_object_body [where e = "example_env tick accept_all"
      and r = "\<lparr>messageId = ''m'', body = wire_number_body\<rparr>"
      and message = "JObj [(''siteId'', JStr ''s1''), (''body'', JNum 5)]"
      and s = "''s1''" and msgBody = "JNum 5"
      and i = 0 and st = "\<lparr>console = [], sent = [], written = [], outcomes = []\<rparr>"]
  obtain st' oc where "process_record (example_env tick accept_all) 0
       \<lparr>messageId = ''m'', body = wire_number_body\<rparr>
       \<lparr>console = [], sent = [], written = [], outcomes = []\<rparr> = (None, st')"
    and "outcomes st' = [oc]" and "oc \<noteq> SkippedInvalid"
    and "map Item (sent st') =
       [[(''siteId'', JStr ''s1''), (''timestamp'', JStr ''2024-01-01T00:00:00.000Z'')]]"
    by (auto simp add: example_defs)
  then show ?thesis
    by (intro exI conjI)
qed

section \<open>The record written\<close>

text \<open>
  C5, as the claim states it, fails: for the valid message whose body has a field
  \<^verbatim>\<open>siteId\<close> of its own, \<^verbatim>\<open>{siteId:"s1", body:{siteId:"s2", timestamp:"t0", temp:21}}\<close>, the
  record written has the \<^verbatim>\<open>siteId\<close> of the body, \<^verbatim>\<open>s2\<close>, not the one of the message, and
  the \<^verbatim>\<open>timestamp\<close> of the body is replaced.
\<close>

theorem C5_counterexample:
  "JSON_parse (example_env tick accept_all) wire_body_siteId =
     Inr (JObj [(''siteId'', JStr ''s1''),
                (''body'', JObj [(''siteId'', JStr ''s2''), (''timestamp'', JStr ''t0''),
                                 (''temp'', JNum 21)])]) \<and>
   outcomes (snd (sqsHandler (example_env tick accept_all) (batch [wire_body_siteId]))) =
     [Success] \<and>
   map Item (written (snd (sqsHandler (example_env tick accept_all)
       (batch [wire_body_siteId])))) =
     [[(''siteId'', JStr ''s2''), (''timestamp'', JStr ''2024-01-01T00:00:00.000Z''),
       (''temp'', JNum 21)]]"
  by (simp add: handler_defs example_defs)

text \<open>
  C5, amended. For every valid message (\<^verbatim>\<open>siteId\<close> and \<^verbatim>\<open>body\<close> both truthy) whose
  \<^verbatim>\<open>siteId\<close> converts to a string, as every string, number and boolean does, if the
  document client accepts the put, the outcome is Success and exactly one record is
  written. The record has an attribute for every top-level field of the body, with the
  value of the body for every field other than \<^verbatim>\<open>timestamp\<close>; its \<^verbatim>\<open>siteId\<close> is the one of
  the message unless the body has a top-level field \<^verbatim>\<open>siteId\<close>, whose value it then
  holds. (The names of the fields of a body are distinct, as those of every object are.)
\<close>

theorem C5_valid_message_written:
  assumes "JSON_parse e (body r) = Inr message"
    and "get_member message ''siteId'' = Inr siteId"
    and "get_member message ''body'' = Inr msgBody"
    and "truthy siteId" and "truthy msgBody"
    and "converts siteId"
    and "distinct (map fst (own_props msgBody))"
    and "docClient_send e i
           \<lparr>TableName = TABLE_NAME e,
            Item = make_Item siteId msgBody (toISOString_now e i),
            ConditionExpression = None\<rparr> = None"
  shows "\<exists>st' p. process_record e i r st = (None, st') \<and>
     outcomes st' = outcomes st @ [Success] \<and>
     sent st' = sent st @ [p] \<and> written st' = written st @ [p] \<and>
     map_of (Item p) ''siteId'' =
       Some (case map_of (own_props msgBody) ''siteId'' of Some v \<Rightarrow> v | None \<Rightarrow> siteId) \<and>
     (\<forall>k v. map_of (own_props msgBody) k = Some v \<and> k \<noteq> ''timestamp'' \<longrightarrow>
        map_of (Item p) k = Some v) \<and>
     (\<forall>k. k \<in> fst ` set (own_props msgBody) \<longrightarrow> k \<in> fst ` set (Item p))"
proof -
  define p where "p = \<lparr>TableName = TABLE_NAME e,
      Item = make_Item siteId msgBody (toISOString_now e i), ConditionExpression = None\<rparr>"
  define st' where "st' = st\<lparr>console := console st @ [Info_stored siteId],
      sent := sent st @ [p], written := written st @ [p], outcomes := outcomes st @ [Success]\<rparr>"
  have "decide e i r = Puts siteId p"
    unfolding p_def by (rule decide_put [OF assms(1-5)])
  moreover from assms(8) have "docClient_send e i p = None"
    by (simp add: p_def)
  ultimately have run: "process_record e i r st = (None, st')"
    using assms(6) by (simp add: process_record_decide try_put_success st'_def)
  have item: "Item p = make_Item siteId msgBody (toISOString_now e i)"
    by (simp add: p_def)
  have sid: "map_of (Item p) ''siteId'' =
      Some (case map_of (own_props msgBody) ''siteId'' of Some v \<Rightarrow> v | None \<Rightarrow> siteId)"
    by (simp add: item make_Item_field [OF assms(7)] split: option.splits)
  have fields: "\<forall>k v. map_of (own_props msgBody) k = Some v \<and> k \<noteq> ''timestamp'' \<longrightarrow>
      map_of (Item p) k = Some v"
    by (simp add: item make_Item_field [OF assms(7)])
  have keys: "\<forall>k. k \<in> fst ` set (own_props msgBody) \<longrightarrow> k \<in> fst ` set (Item p)"
    by (simp add: item make_Item_keys)
  have "outcomes st' = outcomes st @ [Success] \<and> sent st' = sent st @ [p] \<and>
      written st' = written st @ [p]"
    by (simp add: st'_def)
  with run sid fields keys show ?thesis
    by blast
qed

text \<open>
  C5 on the message whose body has a \<^verbatim>\<open>siteId\<close> and a \<^verbatim>\<open>timestamp\<close> of its own.
\<close>

theorem C5_valid_message_written_witness:
  "\<exists>st' p. process_record (example_env tick accept_all) 0
       \<lparr>messageId = ''m'', body = wire_body_siteId\<rparr>
       \<lparr>console = [], sent = [], written = [], outcomes = []\<rparr> = (None, st') \<and>
     outcomes st' = [Success] \<and> written st' = [p] \<and>
     map_of (Item p) ''siteId'' = Some (JStr ''s2'') \<and>
     map_of (Item p) ''temp'' = Some (JNum 21)"
proof -
  have d: "distinct (map fst (own_props (JObj [(''siteId'', JStr ''s2''),
      (''timestamp'', JStr ''t0''), (''temp'', JNum 21)])))"
    by simp
  have c: "converts (JStr ''s1'')"
    by simp
  from C5_valid_message_written [where e = "example_env tick accept_all"
      and r = "\<lparr>messageId = ''m'', body = wire_body_siteId\<rparr>"
      and message = "JObj [(''siteId'', JStr ''s1''),
             (''body'', JObj [(''siteId'', JStr ''s2''), (''timestamp'', JStr ''t0''),
                              (''temp'', JNum 21)])]"
      and siteId = "JStr ''s1''"
      and msgBody = "JObj [(''siteId'', JStr ''s2''), (''timestamp'', JStr ''t0''),
                           (''temp'', JNum 21)]"
      and i = 0 and st = "\<lparr>console = [], sent = [], written = [], outcomes = []\<rparr>",
      OF _ _ _ _ _ c d]
  obtain st' p where "process_record (example_env tick accept_all) 0
       \<lparr>messageId = ''m'', body = wire_body_siteId\<rparr>
       \<lparr>console = [], sent = [], written = [], outcomes = []\<rparr> = (None, st')"
    and "outcomes st' = [Success]" and "written st' = [p]"
    and "map_of (Item p) ''siteId'' = Some (JStr ''s2'')"
    and "map_of (Item p) ''temp'' = Some (JNum 21)"
    by (auto simp add: example_defs)
  then show ?thesis
    by (intro exI conjI)
qed

text \<open>
  C9. For every message that reaches the write step, a put is sent, and its item is the
  one stored when the document client accepts it. The \<^verbatim>\<open>timestamp\<close> of the item is the time
  the processor read while processing the message, whatever the body holds: it is defined
  last. A field \<^verbatim>\<open>siteId\<close> of the body replaces the \<^verbatim>\<open>siteId\<close> of the message, which is
  defined first and kept only when the body has no such field.
\<close>

theorem C9_timestamp_and_siteId_precedence:
  assumes "JSON_parse e (body r) = Inr message"
    and "get_member message ''siteId'' = Inr siteId"
    and "get_member message ''body'' = Inr msgBody"
    and "truthy siteId" and "truthy msgBody"
  shows "\<exists>p. sent (snd (process_record e i r st)) = sent st @ [p] \<and>
     (docClient_send e i p = None \<longrightarrow>
        written (snd (process_record e i r st)) = written st @ [p]) \<and>
     map_of (Item p) ''timestamp'' = Some (JStr (toISOString_now e i)) \<and>
     (\<forall>v. distinct (map fst (own_props msgBody)) \<and>
          map_of (own_props msgBody) ''siteId'' = Some v \<longrightarrow>
          map_of (Item p) ''siteId'' = Some v) \<and>
     (map_of (own_props msgBody) ''siteId'' = None \<longrightarrow>
          map_of (Item p) ''siteId'' = Some siteId)"
proof -
  define p where "p = \<lparr>TableName = TABLE_NAME e,
      Item = make_Item siteId msgBody (toISOString_now e i), ConditionExpression = None\<rparr>"
  have item: "Item p = make_Item siteId msgBody (toISOString_now e i)"
    by (simp add: p_def)
  have dec: "decide e i r = Puts siteId p"
    unfolding p_def by (rule decide_put [OF assms])
  then have snt: "sent (snd (process_record e i r st)) = sent st @ [p]"
    by (simp add: process_record_decide try_put_sent)
  from dec have wrt: "docClient_send e i p = None \<longrightarrow>
      written (snd (process_record e i r st)) = written st @ [p]"
    by (simp add: process_record_decide try_put_written)
  have stamp: "map_of (Item p) ''timestamp'' = Some (JStr (toISOString_now e i))"
    by (simp add: item make_Item_timestamp)
  have over: "\<forall>v. distinct (map fst (own_props msgBody)) \<and>
      map_of (own_props msgBody) ''siteId'' = Some v \<longrightarrow> map_of (Item p) ''siteId'' = Some v"
    by (simp add: item make_Item_field)
  have keep: "map_of (own_props msgBody) ''siteId'' = None \<longrightarrow>
      map_of (Item p) ''siteId'' = Some siteId"
  proof
    assume none: "map_of (own_props msgBody) ''siteId'' = None"
    then have "''siteId'' \<notin> fst ` set (own_props msgBody)"
      by (simp add: map_of_eq_None_iff)
    then have "map_of (spread msgBody [(''siteId'', siteId)]) ''siteId'' = Some siteId"
      by (simp add: spread_def map_of_fold_update_other)
    then show "map_of (Item p) ''siteId'' = Some siteId"
      by (simp add: item make_Item_def update_conv')
  qed
  from snt wrt stamp over keep show ?thesis
    by (intro exI [of _ p] conjI)
qed

text \<open>
  C9 on the message whose body has a \<^verbatim>\<open>siteId\<close> and a \<^verbatim>\<open>timestamp\<close> of its own.
\<close>

theorem C9_timestamp_and_siteId_precedence_witness:
  "\<exists>p. sent (snd (process_record (example_env tick accept_all) 0
       \<lparr>messageId = ''m'', body = wire_body_siteId\<rparr>
       \<lparr>console = [], sent = [], written = [], outcomes = []\<rparr>)) = [p] \<and>
     written (snd (process_record (example_env tick accept_all) 0
       \<lparr>messageId = ''m'', body = wire_body_siteId\<rparr>
       \<lparr>console = [], sent = [], written = [], outcomes = []\<rparr>)) = [p] \<and>
     map_of (Item p) ''timestamp'' = Some (JStr ''2024-01-01T00:00:00.000Z'') \<and>
     map_of (Item p) ''siteId'' = Some (JStr ''s2'')"
proof -
  from C9_timestamp_and_siteId_precedence [where e = "example_env tick accept_all"
      and r = "\<lparr>messageId = ''m'', body = wire_body_siteId\<rparr>"
      and message = "JObj [(''siteId'', JStr ''s1''),
             (''body'', JObj [(''siteId'', JStr ''s2''), (''timestamp'', JStr ''t0''),
                              (''temp'', JNum 21)])]"
      and siteId = "JStr ''s1''"
      and msgBody = "JObj [(''siteId'', JStr ''s2''), (''timestamp'', JStr ''t0''),
                           (''temp'', JNum 21)]"
      and i = 0 and st = "\<lparr>console = [], sent = [], written = [], outcomes = []\<rparr>"]
  obtain p where "sent (snd (process_record (example_env tick accept_all) 0
       \<lparr>messageId = ''m'', body = wire_body_siteId\<rparr>
       \<lparr>console = [], sent = [], written = [], outcomes = []\<rparr>)) = [p]"
    and "written (snd (process_record (example_env tick accept_all) 0
       \<lparr>messageId = ''m'', body = wire_body_siteId\<rparr>
       \<lparr>console = [], sent = [], written = [], outcomes = []\<rparr>)) = [p]"
    and "map_of (Item p) ''timestamp'' = Some (JStr ''2024-01-01T00:00:00.000Z'')"
    and "map_of (Item p) ''siteId'' = Some (JStr ''s2'')"
    by (auto simp add: example_defs)
  then show ?thesis
    by (intro exI conjI)
qed

section \<open>A storage failure and the rest of the batch\<close>

text \<open>
  C6. The claim: when the storage write of message \<open>k\<close> fails, all the other messages of
  the batch are still attempted. The code at two batches whose first put the document
  client rejects. In the first, the rejected put is caught and logged, then the body of
  the second message is not JSON: the handler rejects with the SyntaxError and the third
  message is never attempted. In the second, the \<^verbatim>\<open>siteId\<close> of the first message is the
  object \<^verbatim>\<open>{"toString":1}\<close>: the put is sent and rejected, the template literal of the
  \<^verbatim>\<open>catch\<close> block throws a TypeError, the handler rejects, nothing is classified and the
  second message is never attempted.
\<close>

theorem C6_failure_then_throw_ends_batch:
  "fst (sqsHandler (example_env tick (reject_at 0)) (batch [wire_s1, wire_not_json, wire_s3])) =
     Some SyntaxError \<and>
   outcomes (snd (sqsHandler (example_env tick (reject_at 0))
     (batch [wire_s1, wire_not_json, wire_s3]))) = [StorageFailure] \<and>
   length (sent (snd (sqsHandler (example_env tick (reject_at 0))
     (batch [wire_s1, wire_not_json, wire_s3])))) = 1 \<and>
   fst (sqsHandler (example_env tick (reject_at 0)) (batch [wire_object_siteId, wire_s3])) =
     Some TypeError \<and>
   outcomes (snd (sqsHandler (example_env tick (reject_at 0))
     (batch [wire_object_siteId, wire_s3]))) = [] \<and>
   length (sent (snd (sqsHandler (example_env tick (reject_at 0))
     (batch [wire_object_siteId, wire_s3])))) = 1 \<and>
   written (snd (sqsHandler (example_env tick (reject_at 0))
     (batch [wire_object_siteId, wire_s3]))) = []"
  by (simp add: handler_defs example_defs)

end
